theory Spec2Isabelle
  imports Complex_Main "HOL-Library.AList"
begin

section \<open>Python values\<close>

text \<open>
  Dictionaries typed \<open>Dict[str, Any]\<close> hold arbitrary Python values. A dictionary is an
  association list in insertion order, as Python iterates it; \<open>map_of\<close> is the lookup and
  \<open>AList.update\<close> the assignment \<open>d[k] = v\<close> (in place for a known key, appended for a new
  one). A float is kept as the number its literal denotes.
\<close>

datatype pyval =
    PNone
  | PBool bool
  | PInt int
  | PFloat real
  | PStr string
  | PList "pyval list"
  | PDict "(string \<times> pyval) list"

text \<open>Exceptions are values; a function that may raise returns \<open>py_exception + 'a\<close>.\<close>

datatype py_exception =
    KeyError string
  | AttributeError string
  | TypeError string
  | ValueError string
  | ExternalError string

text \<open>
  What the process supplies: the clock read by \<open>datetime.utcnow().isoformat()\<close>,
  \<open>hashlib.sha256(...).hexdigest()\<close>, and the interpreter's limit on the number of digits
  in a conversion between \<open>int\<close> and \<open>str\<close> (\<open>sys.get_int_max_str_digits()\<close>: 4300 by
  default since Python 3.11, 0 when there is no limit).
\<close>

record runtime =
  utcnow_isoformat :: string
  sha256_hexdigest :: "string \<Rightarrow> string"
  int_max_str_digits :: nat

text \<open>
  The decimal digits of an int. \<open>str(n)\<close>, an f-string and \<open>json.dumps\<close> all produce them
  through the same conversion, which raises \<open>ValueError\<close> when the number has more digits
  than the limit of the interpreter: that is \<open>int_to_str\<close>.
\<close>

definition digit_char :: "nat \<Rightarrow> char" where
  "digit_char d = ''0123456789'' ! d"

function str_of_nat :: "nat \<Rightarrow> string" where
  "str_of_nat n =
     (if n < 10 then [digit_char n] else str_of_nat (n div 10) @ [digit_char (n mod 10)])"
  by pat_completeness auto
termination
  by (relation "measure id") auto

declare str_of_nat.simps [simp del]

definition str_of_int :: "int \<Rightarrow> string" where
  "str_of_int i = (if i < 0 then CHR ''-'' # str_of_nat (nat (- i)) else str_of_nat (nat i))"

definition int_to_str :: "runtime \<Rightarrow> int \<Rightarrow> py_exception + string" where
  "int_to_str rt i =
     (if 0 < int_max_str_digits rt \<and> int_max_str_digits rt < length (str_of_nat (nat \<bar>i\<bar>))
      then Inl (ValueError ''Exceeds the limit for integer string conversion'')
      else Inr (str_of_int i))"

text \<open>An optional field in an f-string, and an optional int in \<open>json.dumps\<close>.\<close>

definition format_optional_int :: "runtime \<Rightarrow> int option \<Rightarrow> py_exception + string" where
  "format_optional_int rt v = (case v of None \<Rightarrow> Inr ''None'' | Some i \<Rightarrow> int_to_str rt i)"

definition json_optional_int :: "runtime \<Rightarrow> int option \<Rightarrow> py_exception + string" where
  "json_optional_int rt v = (case v of None \<Rightarrow> Inr ''null'' | Some i \<Rightarrow> int_to_str rt i)"

definition format_optional_str :: "string option \<Rightarrow> string" where
  "format_optional_str v = (case v of None \<Rightarrow> ''None'' | Some s \<Rightarrow> s)"

text \<open>Truth value of an \<open>Optional[int]\<close> and of a \<open>str\<close> in an \<open>if\<close>.\<close>

definition truthy_optional_int :: "int option \<Rightarrow> bool" where
  "truthy_optional_int v = (case v of None \<Rightarrow> False | Some i \<Rightarrow> i \<noteq> 0)"

definition truthy_str :: "string \<Rightarrow> bool" where
  "truthy_str s = (s \<noteq> [])"

text \<open>The slice \<open>xs[:n]\<close>: a negative bound counts from the end of the list.\<close>

definition slice_to :: "int \<Rightarrow> 'a list \<Rightarrow> 'a list" where
  "slice_to n xs = (if 0 \<le> n then take (nat n) xs else take (length xs - nat (- n)) xs)"

section \<open>core/information\_hierarchy.py: the data model\<close>

datatype InformationRelevance = FARMER_SPECIFIC | COUNTRY_SPECIFIC | GLOBAL

record InformationItem =
  content :: string
  relevance :: InformationRelevance
  item_farmer_id :: "int option"
  item_country_code :: "string option"
  language :: "string option"
  item_source_type :: string
  item_metadata :: "(string \<times> pyval) list option"

record LocalizationContext =
  whatsapp_number :: string
  country_code :: string
  country_name :: string
  languages :: "string list"
  farmer_id :: "int option"
  preferred_language :: "string option"
  timezone :: "string option"
  agricultural_zones :: "string list option"

record InformationSource =
  source_id :: string
  source_type :: string
  source_name :: string
  can_access_farmer_data :: bool
  can_access_country_data :: bool
  can_access_global_data :: bool
  source_metadata :: "(string \<times> pyval) list"

record InformationQuery =
  query_text :: string
  query_context :: LocalizationContext
  required_relevance_levels :: "InformationRelevance list"
  max_items_per_level :: int
  include_metadata :: bool

record InformationResult =
  query :: InformationQuery
  farmer_items :: "InformationItem list"
  country_items :: "InformationItem list"
  global_items :: "InformationItem list"
  metadata :: "(string \<times> pyval) list"

definition get_all_items_by_priority :: "InformationResult \<Rightarrow> InformationItem list" where
  "get_all_items_by_priority r = farmer_items r @ country_items r @ global_items r"

section \<open>The manager\<close>

text \<open>
  \<open>self.sources\<close> is a dictionary keyed by source id, iterated in insertion order. The
  three retrieval methods (\<open>_mock_farmer_database_query\<close>, \<open>_mock_country_rag_query\<close>,
  \<open>_mock_global_query\<close>) are looked up on \<open>self\<close> at each call, and the source marks them
  as placeholders to be replaced by the real collaborators; the manager therefore carries
  the method bound at each of the three names, which may raise. The constructor installs
  the bodies written in the source; the farmer one formats \<open>farmer_id\<close> in an f-string,
  so it depends on the interpreter it runs in.
\<close>

record InformationHierarchyManager =
  sources :: "(string \<times> InformationSource) list"
  farmer_database_query :: "InformationQuery \<Rightarrow> py_exception + InformationItem list"
  country_rag_query :: "InformationQuery \<Rightarrow> py_exception + InformationItem list"
  global_query :: "InformationQuery \<Rightarrow> py_exception + InformationItem list"

definition register_source ::
  "InformationHierarchyManager \<Rightarrow> InformationSource \<Rightarrow> InformationHierarchyManager" where
  "register_source m s = m\<lparr>sources := AList.update (source_id s) s (sources m)\<rparr>"

definition farmer_db :: InformationSource where
  "farmer_db = \<lparr>source_id = ''farmer_db'', source_type = ''database'',
     source_name = ''Farmer Database'',
     can_access_farmer_data = True, can_access_country_data = True,
     can_access_global_data = False, source_metadata = []\<rparr>"

definition rag_knowledge :: InformationSource where
  "rag_knowledge = \<lparr>source_id = ''rag_knowledge'', source_type = ''rag'',
     source_name = ''Agricultural Knowledge Base'',
     can_access_farmer_data = False, can_access_country_data = True,
     can_access_global_data = True, source_metadata = []\<rparr>"

definition external_search :: InformationSource where
  "external_search = \<lparr>source_id = ''external_search'', source_type = ''external'',
     source_name = ''Web Search (Perplexity)'',
     can_access_farmer_data = False, can_access_country_data = False,
     can_access_global_data = True, source_metadata = []\<rparr>"

definition register_default_sources ::
  "InformationHierarchyManager \<Rightarrow> InformationHierarchyManager" where
  "register_default_sources m =
     register_source (register_source (register_source m farmer_db) rag_knowledge)
       external_search"

definition mock_farmer_database_query ::
  "runtime \<Rightarrow> InformationQuery \<Rightarrow> py_exception + InformationItem list" where
  "mock_farmer_database_query rt q =
     (case format_optional_int rt (farmer_id (query_context q)) of
        Inl e \<Rightarrow> Inl e
      | Inr formatted_id \<Rightarrow>
          Inr [\<lparr>content = ''Farmer '' @ formatted_id @ [CHR 0x27]
                   @ ''s fields and current crops'',
                relevance = FARMER_SPECIFIC,
                item_farmer_id = farmer_id (query_context q),
                item_country_code = None,
                language = None,
                item_source_type = ''database'',
                item_metadata = Some [(''table'', PStr ''fields''),
                                      (''query_type'', PStr ''farmer_overview'')]\<rparr>])"

definition mock_country_rag_query :: "InformationQuery \<Rightarrow> InformationItem list" where
  "mock_country_rag_query q =
     [\<lparr>content = ''Agricultural regulations in '' @ country_name (query_context q),
       relevance = COUNTRY_SPECIFIC,
       item_farmer_id = None,
       item_country_code = Some (country_code (query_context q)),
       language = None,
       item_source_type = ''rag'',
       item_metadata = Some [(''document'', PStr ''country_regulations''),
                             (''relevance_score'', PFloat 0.95)]\<rparr>]"

definition mock_global_query :: "InformationQuery \<Rightarrow> InformationItem list" where
  "mock_global_query q =
     [\<lparr>content = ''General agricultural best practices'',
       relevance = GLOBAL,
       item_farmer_id = None,
       item_country_code = None,
       language = None,
       item_source_type = ''rag'',
       item_metadata = Some [(''document'', PStr ''global_agriculture''),
                             (''relevance_score'', PFloat 0.85)]\<rparr>]"

definition new_manager :: "runtime \<Rightarrow> InformationHierarchyManager" where
  "new_manager rt = register_default_sources
     \<lparr>sources = [],
      farmer_database_query = mock_farmer_database_query rt,
      country_rag_query = (\<lambda>q. Inr (mock_country_rag_query q)),
      global_query = (\<lambda>q. Inr (mock_global_query q))\<rparr>"

subsection \<open>The three tier queries\<close>

text \<open>
  Each is a loop over \<open>self.sources.items()\<close> that extends \<open>items\<close>; an exception
  raised by the retrieval call leaves the loop and the method.
\<close>

fun query_farmer_specific_loop ::
  "InformationHierarchyManager \<Rightarrow> InformationQuery \<Rightarrow> (string \<times> InformationSource) list
     \<Rightarrow> InformationItem list \<Rightarrow> py_exception + InformationItem list" where
  "query_farmer_specific_loop m q [] items = Inr items"
| "query_farmer_specific_loop m q ((sid, s) # rest) items =
     (if can_access_farmer_data s \<and> truthy_optional_int (farmer_id (query_context q)) then
        (if source_type s = ''database'' then
           (case farmer_database_query m q of
              Inl e \<Rightarrow> Inl e
            | Inr found \<Rightarrow> query_farmer_specific_loop m q rest (items @ found))
         else query_farmer_specific_loop m q rest items)
      else query_farmer_specific_loop m q rest items)"

definition query_farmer_specific ::
  "InformationHierarchyManager \<Rightarrow> InformationQuery \<Rightarrow> py_exception + InformationItem list" where
  "query_farmer_specific m q = query_farmer_specific_loop m q (sources m) []"

fun query_country_specific_loop ::
  "InformationHierarchyManager \<Rightarrow> InformationQuery \<Rightarrow> (string \<times> InformationSource) list
     \<Rightarrow> InformationItem list \<Rightarrow> py_exception + InformationItem list" where
  "query_country_specific_loop m q [] items = Inr items"
| "query_country_specific_loop m q ((sid, s) # rest) items =
     (if can_access_country_data s \<and> truthy_str (country_code (query_context q)) then
        (if source_type s = ''rag'' then
           (case country_rag_query m q of
              Inl e \<Rightarrow> Inl e
            | Inr found \<Rightarrow> query_country_specific_loop m q rest (items @ found))
         else query_country_specific_loop m q rest items)
      else query_country_specific_loop m q rest items)"

definition query_country_specific ::
  "InformationHierarchyManager \<Rightarrow> InformationQuery \<Rightarrow> py_exception + InformationItem list" where
  "query_country_specific m q = query_country_specific_loop m q (sources m) []"

fun query_global_loop ::
  "InformationHierarchyManager \<Rightarrow> InformationQuery \<Rightarrow> (string \<times> InformationSource) list
     \<Rightarrow> InformationItem list \<Rightarrow> py_exception + InformationItem list" where
  "query_global_loop m q [] items = Inr items"
| "query_global_loop m q ((sid, s) # rest) items =
     (if can_access_global_data s then
        (if source_type s \<in> set [''rag'', ''external''] then
           (case global_query m q of
              Inl e \<Rightarrow> Inl e
            | Inr found \<Rightarrow> query_global_loop m q rest (items @ found))
         else query_global_loop m q rest items)
      else query_global_loop m q rest items)"

definition query_global ::
  "InformationHierarchyManager \<Rightarrow> InformationQuery \<Rightarrow> py_exception + InformationItem list" where
  "query_global m q = query_global_loop m q (sources m) []"

subsection \<open>The context fingerprint\<close>

definition context_str :: "LocalizationContext \<Rightarrow> string" where
  "context_str c = whatsapp_number c @ '':'' @ country_code c @ '':''
                     @ format_optional_str (preferred_language c)"

definition hash_context :: "runtime \<Rightarrow> LocalizationContext \<Rightarrow> string" where
  "hash_context rt c = take 16 (sha256_hexdigest rt (context_str c))"

subsection \<open>query\_information\<close>

text \<open>
  The method works on the result under construction and the list \<open>sources_used\<close>. Each
  of the three blocks is one step on that pair; a tier that is not required leaves both
  untouched. Calls to the logger write to the process log and return nothing; they are
  left out, except for what can raise while the message is built: \<open>_log_query\<close> passes its
  entry through \<open>json.dumps\<close>. The strings of the entry, \<open>None\<close> and the three list lengths
  (below \<open>2^63\<close>, and the digit limit cannot be set below 640) always serialise; the
  \<open>farmer_id\<close> is an int of any size. A \<open>str\<close> is represented by its encoding, so \<open>encode()\<close>
  in \<open>_hash_context\<close> is the identity.
\<close>

definition farmer_block ::
  "InformationHierarchyManager \<Rightarrow> InformationQuery \<Rightarrow> InformationResult \<times> string list
     \<Rightarrow> py_exception + InformationResult \<times> string list" where
  "farmer_block m q st =
     (case st of (result, sources_used) \<Rightarrow>
        if FARMER_SPECIFIC \<in> set (required_relevance_levels q) then
          (case query_farmer_specific m q of
             Inl e \<Rightarrow> Inl e
           | Inr items \<Rightarrow>
               Inr (result\<lparr>farmer_items := slice_to (max_items_per_level q) items\<rparr>,
                    if items \<noteq> [] then sources_used @ [''farmer_specific'']
                    else sources_used))
        else Inr (result, sources_used))"

definition country_block ::
  "InformationHierarchyManager \<Rightarrow> InformationQuery \<Rightarrow> InformationResult \<times> string list
     \<Rightarrow> py_exception + InformationResult \<times> string list" where
  "country_block m q st =
     (case st of (result, sources_used) \<Rightarrow>
        if COUNTRY_SPECIFIC \<in> set (required_relevance_levels q) then
          (case query_country_specific m q of
             Inl e \<Rightarrow> Inl e
           | Inr items \<Rightarrow>
               Inr (result\<lparr>country_items := slice_to (max_items_per_level q) items\<rparr>,
                    if items \<noteq> [] then sources_used @ [''country_specific'']
                    else sources_used))
        else Inr (result, sources_used))"

definition global_block ::
  "InformationHierarchyManager \<Rightarrow> InformationQuery \<Rightarrow> InformationResult \<times> string list
     \<Rightarrow> py_exception + InformationResult \<times> string list" where
  "global_block m q st =
     (case st of (result, sources_used) \<Rightarrow>
        if GLOBAL \<in> set (required_relevance_levels q) then
          (case query_global m q of
             Inl e \<Rightarrow> Inl e
           | Inr items \<Rightarrow>
               Inr (result\<lparr>global_items := slice_to (max_items_per_level q) items\<rparr>,
                    if items \<noteq> [] then sources_used @ [''global''] else sources_used))
        else Inr (result, sources_used))"

definition add_metadata ::
  "runtime \<Rightarrow> InformationQuery \<Rightarrow> InformationResult \<times> string list \<Rightarrow> InformationResult" where
  "add_metadata rt q st =
     (case st of (result, sources_used) \<Rightarrow>
        result\<lparr>metadata :=
          [(''query_timestamp'', PStr (utcnow_isoformat rt)),
           (''sources_used'', PList (map PStr sources_used)),
           (''total_items'', PInt (int (length (get_all_items_by_priority result)))),
           (''context_hash'', PStr (hash_context rt (query_context q)))]\<rparr>)"

definition log_query :: "runtime \<Rightarrow> InformationResult \<Rightarrow> py_exception + unit" where
  "log_query rt result =
     (case json_optional_int rt (farmer_id (query_context (query result))) of
        Inl e \<Rightarrow> Inl e
      | Inr rendered \<Rightarrow> Inr ())"

definition query_information ::
  "runtime \<Rightarrow> InformationHierarchyManager \<Rightarrow> InformationQuery
     \<Rightarrow> py_exception + InformationResult" where
  "query_information rt m q =
     (case farmer_block m q
             (\<lparr>query = q, farmer_items = [], country_items = [], global_items = [],
               metadata = []\<rparr>, []) of
        Inl e \<Rightarrow> Inl e
      | Inr st1 \<Rightarrow>
          (case country_block m q st1 of
             Inl e \<Rightarrow> Inl e
           | Inr st2 \<Rightarrow>
               (case global_block m q st2 of
                  Inl e \<Rightarrow> Inl e
                | Inr st3 \<Rightarrow>
                    (case log_query rt (add_metadata rt q st3) of
                       Inl e \<Rightarrow> Inl e
                     | Inr logged \<Rightarrow> Inr (add_metadata rt q st3)))))"

subsection \<open>The privacy validator\<close>

definition validate_privacy_compliance :: "InformationItem \<Rightarrow> InformationSource \<Rightarrow> bool" where
  "validate_privacy_compliance item source =
     (if relevance item = FARMER_SPECIFIC \<and> \<not> can_access_farmer_data source then False
      else if relevance item = COUNTRY_SPECIFIC \<and> \<not> can_access_country_data source then False
      else True)"

section \<open>knowledge\_search.py\<close>

text \<open>
  The class talks to three things outside the repository: the embedding endpoint, the
  vector index and the clock. Their state is a world \<open>'w\<close> that every call may change;
  \<open>'v\<close> is the type of embedding vectors. \<open>py_hash\<close>, \<open>py_str\<close> and \<open>str_lower\<close> are the
  built-ins \<open>hash\<close>, \<open>str\<close> and \<open>str.lower\<close>.
\<close>

record Match =
  match_id :: pyval
  match_score :: pyval
  match_metadata :: "(string \<times> pyval) list option"

record ('w, 'v) collaborators =
  embeddings_create :: "pyval \<Rightarrow> 'w \<Rightarrow> (py_exception + 'v) \<times> 'w"
  index_query ::
    "'v \<Rightarrow> (string \<times> pyval) list option \<Rightarrow> int \<Rightarrow> 'w \<Rightarrow> (py_exception + Match list) \<times> 'w"
  index_upsert ::
    "string \<times> 'v \<times> (string \<times> pyval) list \<Rightarrow> 'w \<Rightarrow> (py_exception + unit) \<times> 'w"
  now_isoformat :: "'w \<Rightarrow> string"
  py_hash :: "pyval \<Rightarrow> int"
  py_str :: "pyval \<Rightarrow> string"
  str_lower :: "string \<Rightarrow> string"

text \<open>\<open>d.get(k, default)\<close>, \<open>v.lower()\<close> and \<open>hash(v)\<close> on arbitrary values.\<close>

definition dict_get :: "(string \<times> pyval) list \<Rightarrow> string \<Rightarrow> pyval \<Rightarrow> pyval" where
  "dict_get d k dflt = (case map_of d k of None \<Rightarrow> dflt | Some v \<Rightarrow> v)"

definition lower :: "('w, 'v) collaborators \<Rightarrow> pyval \<Rightarrow> py_exception + pyval" where
  "lower c v = (case v of PStr s \<Rightarrow> Inr (PStr (str_lower c s))
                        | _ \<Rightarrow> Inl (AttributeError ''lower''))"

definition hash_value :: "('w, 'v) collaborators \<Rightarrow> pyval \<Rightarrow> py_exception + int" where
  "hash_value c v = (case v of PList _ \<Rightarrow> Inl (TypeError ''unhashable type'')
                             | PDict _ \<Rightarrow> Inl (TypeError ''unhashable type'')
                             | _ \<Rightarrow> Inr (py_hash c v))"

text \<open>\<open>_get_embedding\<close> logs the exception of the endpoint and raises it again.\<close>

definition get_embedding ::
  "('w, 'v) collaborators \<Rightarrow> pyval \<Rightarrow> 'w \<Rightarrow> (py_exception + 'v) \<times> 'w" where
  "get_embedding c text w =
     (case embeddings_create c text w of
        (Inl e, w') \<Rightarrow> (Inl e, w')
      | (Inr embedding, w') \<Rightarrow> (Inr embedding, w'))"






text \<open>
  \<open>add_document\<close> has the same shape: the block is \<open>add_document_body\<close>, the handler
  returns \<open>False\<close>. \<open>document["text"]\<close> raises \<open>KeyError\<close> when the key is missing. A
  hash fits in 64 bits, so its digits are within every limit of the interpreter.
\<close>

definition document_metadata ::
  "('w, 'v) collaborators \<Rightarrow> (string \<times> pyval) list \<Rightarrow> pyval \<Rightarrow> 'w
     \<Rightarrow> py_exception + (string \<times> pyval) list" where
  "document_metadata c document text w =
     (let md = [(''text'', text),
                (''source'', dict_get document ''source'' (PStr ''manual'')),
                (''document_type'', dict_get document ''document_type'' (PStr ''general'')),
                (''language'', dict_get document ''language'' (PStr ''hr'')),
                (''indexed_at'', PStr (now_isoformat c w))]
      in case (case map_of document ''crop'' of
                 None \<Rightarrow> Inr md
               | Some v \<Rightarrow> (case lower c v of
                             Inl e \<Rightarrow> Inl e
                           | Inr l \<Rightarrow> Inr (AList.update ''crop'' l md))) of
           Inl e \<Rightarrow> Inl e
         | Inr md1 \<Rightarrow>
             (case (case map_of document ''chemical'' of
                      None \<Rightarrow> Inr md1
                    | Some v \<Rightarrow> (case lower c v of
                                  Inl e \<Rightarrow> Inl e
                                | Inr l \<Rightarrow> Inr (AList.update ''chemical'' l md1))) of
                Inl e \<Rightarrow> Inl e
              | Inr md2 \<Rightarrow>
                  Inr (case map_of document ''phi_days'' of
                         None \<Rightarrow> md2
                       | Some v \<Rightarrow> AList.update ''phi_days'' v md2)))"

definition add_document_body ::
  "('w, 'v) collaborators \<Rightarrow> (string \<times> pyval) list \<Rightarrow> 'w \<Rightarrow> (py_exception + unit) \<times> 'w" where
  "add_document_body c document w =
     (case map_of document ''text'' of
        None \<Rightarrow> (Inl (KeyError ''text''), w)
      | Some text \<Rightarrow>
          (case get_embedding c text w of
             (Inl e, w1) \<Rightarrow> (Inl e, w1)
           | (Inr embedding, w1) \<Rightarrow>
               (case document_metadata c document text w1 of
                  Inl e \<Rightarrow> (Inl e, w1)
                | Inr md \<Rightarrow>
                    (case hash_value c text of
                       Inl e \<Rightarrow> (Inl e, w1)
                     | Inr h \<Rightarrow>
                         index_upsert c
                           (py_str c (dict_get document ''source'' (PStr ''doc'')) @ ''_''
                              @ str_of_int h, embedding, md) w1))))"

definition add_document ::
  "('w, 'v) collaborators \<Rightarrow> (string \<times> pyval) list \<Rightarrow> 'w \<Rightarrow> bool \<times> 'w" where
  "add_document c document w =
     (case add_document_body c document w of
        (Inl e, w') \<Rightarrow> (False, w')
      | (Inr u, w') \<Rightarrow> (True, w'))"

text \<open>
  \<open>bulk_index_fis_documents\<close>: the dictionary \<open>stats\<close> is built with its three keys, so
  \<open>stats[k] += 1\<close> always finds its key.
\<close>

fun bulk_index_loop ::
  "('w, 'v) collaborators \<Rightarrow> (string \<times> pyval) list list \<Rightarrow> (string \<times> int) list \<Rightarrow> 'w
     \<Rightarrow> (string \<times> int) list \<times> 'w" where
  "bulk_index_loop c [] stats w = (stats, w)"
| "bulk_index_loop c (doc # rest) stats w =
     (case add_document c doc w of
        (success, w') \<Rightarrow>
          if success then
            bulk_index_loop c rest (AList.map_entry ''success'' (\<lambda>n. n + 1) stats) w'
          else
            bulk_index_loop c rest (AList.map_entry ''failed'' (\<lambda>n. n + 1) stats) w')"

definition bulk_index_fis_documents ::
  "('w, 'v) collaborators \<Rightarrow> (string \<times> pyval) list list \<Rightarrow> 'w \<Rightarrow> (string \<times> int) list \<times> 'w" where
  "bulk_index_fis_documents c documents w =
     bulk_index_loop c documents
       [(''total'', int (length documents)), (''success'', 0), (''failed'', 0)] w"

section \<open>Vocabulary of the statements\<close>

text \<open>The items a retrieval call hands back; none when it raised.\<close>

definition candidates :: "py_exception + 'a list \<Rightarrow> 'a list" where
  "candidates x = (case x of Inl e \<Rightarrow> [] | Inr xs \<Rightarrow> xs)"

text \<open>The tests that guard the retrieval call in each of the three loops.\<close>

abbreviation farmer_guard :: "InformationQuery \<Rightarrow> InformationSource \<Rightarrow> bool" where
  "farmer_guard q s \<equiv>
     can_access_farmer_data s \<and> truthy_optional_int (farmer_id (query_context q))
       \<and> source_type s = ''database''"

abbreviation country_guard :: "InformationQuery \<Rightarrow> InformationSource \<Rightarrow> bool" where
  "country_guard q s \<equiv>
     can_access_country_data s \<and> truthy_str (country_code (query_context q))
       \<and> source_type s = ''rag''"

abbreviation global_guard :: "InformationSource \<Rightarrow> bool" where
  "global_guard s \<equiv>
     can_access_global_data s \<and> (source_type s = ''rag'' \<or> source_type s = ''external'')"

text \<open>
  What a block of \<open>query_information\<close> has in hand for its tier: the value of the tier
  query when the tier is required, and no items when it is not.
\<close>

definition farmer_tier ::
  "InformationHierarchyManager \<Rightarrow> InformationQuery \<Rightarrow> py_exception + InformationItem list" where
  "farmer_tier m q =
     (if FARMER_SPECIFIC \<in> set (required_relevance_levels q) then query_farmer_specific m q
      else Inr [])"

definition country_tier ::
  "InformationHierarchyManager \<Rightarrow> InformationQuery \<Rightarrow> py_exception + InformationItem list" where
  "country_tier m q =
     (if COUNTRY_SPECIFIC \<in> set (required_relevance_levels q) then query_country_specific m q
      else Inr [])"

definition global_tier ::
  "InformationHierarchyManager \<Rightarrow> InformationQuery \<Rightarrow> py_exception + InformationItem list" where
  "global_tier m q =
     (if GLOBAL \<in> set (required_relevance_levels q) then query_global m q else Inr [])"

text \<open>The entry \<open>sources_used\<close> of the metadata of a result.\<close>

definition sources_used_of :: "InformationResult \<Rightarrow> pyval option" where
  "sources_used_of r = map_of (metadata r) ''sources_used''"

text \<open>The values of \<open>add_document\<close> on the documents of a bulk run, in order.\<close>

fun add_document_results ::
  "('w, 'v) collaborators \<Rightarrow> (string \<times> pyval) list list \<Rightarrow> 'w \<Rightarrow> bool list" where
  "add_document_results c [] w = []"
| "add_document_results c (doc # rest) w =
     (case add_document c doc w of (success, w') \<Rightarrow> success # add_document_results c rest w')"

section \<open>Concrete inputs\<close>

text \<open>The context and the query of the module's own example run.\<close>

definition example_context :: LocalizationContext where
  "example_context = \<lparr>whatsapp_number = ''+359123456789'', country_code = ''BG'',
     country_name = ''Bulgaria'', languages = [''bg''], farmer_id = Some 123,
     preferred_language = Some ''bg'', timezone = None, agricultural_zones = None\<rparr>"

definition example_query :: InformationQuery where
  "example_query = \<lparr>query_text = ''When should I harvest my mangoes?'',
     query_context = example_context,
     required_relevance_levels = [FARMER_SPECIFIC, COUNTRY_SPECIFIC, GLOBAL],
     max_items_per_level = 5, include_metadata = True\<rparr>"

text \<open>
  A runtime with the default digit limit, whose digest function has the value of SHA-256
  at the string of the example context.
\<close>

definition example_runtime :: runtime where
  "example_runtime = \<lparr>utcnow_isoformat = ''2024-05-01T08:30:00'',
     sha256_hexdigest = (\<lambda>s. if s = ''+359123456789:BG:bg''
        then ''cc4d390252136c5ac55a88877a74cff37854de9294e70c37a159a27837703501''
        else replicate 64 (CHR ''0'')),
     int_max_str_digits = 4300\<rparr>"

definition no_farmer_query :: InformationQuery where
  "no_farmer_query = example_query\<lparr>query_context := example_context\<lparr>farmer_id := None\<rparr>\<rparr>"

definition farmer_zero_query :: InformationQuery where
  "farmer_zero_query = example_query\<lparr>query_context := example_context\<lparr>farmer_id := Some 0\<rparr>\<rparr>"

definition negative_cap_query :: InformationQuery where
  "negative_cap_query = example_query\<lparr>max_items_per_level := - 1\<rparr>"

definition zero_cap_query :: InformationQuery where
  "zero_cap_query = example_query\<lparr>max_items_per_level := 0\<rparr>"

definition one_cap_query :: InformationQuery where
  "one_cap_query = example_query\<lparr>max_items_per_level := 1\<rparr>"



text \<open>The manager as its constructor leaves it, in the example runtime.\<close>

abbreviation example_manager :: InformationHierarchyManager where
  "example_manager \<equiv> new_manager example_runtime"

text \<open>A manager whose only source is a cache with the default capability flags.\<close>

definition cache_source :: InformationSource where
  "cache_source = \<lparr>source_id = ''cache'', source_type = ''cache'',
     source_name = ''Cache'',
     can_access_farmer_data = False, can_access_country_data = True,
     can_access_global_data = True, source_metadata = []\<rparr>"

definition cache_manager :: InformationHierarchyManager where
  "cache_manager = register_source (example_manager\<lparr>sources := []\<rparr>) cache_source"

text \<open>
  A manager whose global retrieval is a faulty collaborator that hands back a record of
  a farmer, and one whose global retrieval raises.
\<close>

definition leaked_item :: InformationItem where
  "leaked_item = \<lparr>content = ''Fields of farmer 7'', relevance = FARMER_SPECIFIC,
     item_farmer_id = Some 7, item_country_code = None, language = None,
     item_source_type = ''external'', item_metadata = None\<rparr>"

definition leaking_manager :: InformationHierarchyManager where
  "leaking_manager = example_manager\<lparr>global_query := (\<lambda>q. Inr [leaked_item])\<rparr>"


text \<open>
  Collaborators for a run of the indexer: the world is the list of vectors stored so far,
  the embedding of a text is its length, and the endpoint refuses what is not a string.
\<close>

definition example_collaborators ::
  "((string \<times> nat \<times> (string \<times> pyval) list) list, nat) collaborators" where
  "example_collaborators = \<lparr>
     embeddings_create = (\<lambda>v w. case v of PStr s \<Rightarrow> (Inr (length s), w)
                                   | _ \<Rightarrow> (Inl (ExternalError ''invalid input''), w)),
     index_query = (\<lambda>v f k w. (Inr [], w)),
     index_upsert = (\<lambda>vec w. (Inr (), w @ [vec])),
     now_isoformat = (\<lambda>w. ''2024-05-01T08:30:00''),
     py_hash = (\<lambda>v. 0),
     py_str = (\<lambda>v. case v of PStr s \<Rightarrow> s | _ \<Rightarrow> ''?''),
     str_lower = (\<lambda>s. s)\<rparr>"


definition example_documents :: "(string \<times> pyval) list list" where
  "example_documents =
     [[(''text'', PStr ''Prosaro: karenca 35 dni''), (''source'', PStr ''fis''),
       (''crop'', PStr ''wheat'')],
      [(''source'', PStr ''fis'')],
      [(''text'', PStr ''Bakrov fungicid''), (''crop'', PInt 3)]]"

section \<open>Facts about the model\<close>

subsection \<open>Slices and concatenations\<close>

lemma slice_to_Nil: "slice_to n [] = []"
  by (simp add: slice_to_def)

lemma length_slice_to: "0 \<le> n \<Longrightarrow> length (slice_to n xs) \<le> nat n"
  by (simp add: slice_to_def)

lemma slice_to_nonneg: "0 \<le> n \<Longrightarrow> slice_to n xs = take (nat n) xs"
  by (simp add: slice_to_def)

lemma slice_to_eq_Nil_iff: "1 \<le> n \<Longrightarrow> (slice_to n xs = []) = (xs = [])"
  by (cases xs) (auto simp: slice_to_def take_Cons')

lemma set_slice_to: "set (slice_to n xs) \<subseteq> set xs"
  by (auto simp: slice_to_def dest: in_set_takeD)

lemma take_of_digest:
  "length d = 64 \<Longrightarrow> set d \<subseteq> H \<Longrightarrow> length (take 16 d) = 16 \<and> set (take 16 d) \<subseteq> H"
  using set_take_subset [of 16 d] by simp

subsection \<open>The digits of an int\<close>

lemma length_str_of_nat_pos: "0 < length (str_of_nat n)"
  by (subst str_of_nat.simps) simp

lemma length_str_of_nat_gt: "1 \<le> k \<Longrightarrow> (k < length (str_of_nat n)) = (10 ^ k \<le> n)"
proof (induction n arbitrary: k rule: str_of_nat.induct)
  case (1 n)
  show ?case
  proof (cases "n < 10")
    case True
    have "(10::nat) ^ 1 \<le> 10 ^ k"
      using "1.prems" by (intro power_increasing) simp_all
    then have "\<not> 10 ^ k \<le> n" using True by simp
    moreover have "length (str_of_nat n) = 1"
      using True by (subst str_of_nat.simps) simp
    ultimately show ?thesis using "1.prems" by simp
  next
    case False
    have len: "length (str_of_nat n) = length (str_of_nat (n div 10)) + 1"
      using False by (subst str_of_nat.simps) simp
    show ?thesis
    proof (cases "k = 1")
      case True
      then show ?thesis using False len length_str_of_nat_pos [of "n div 10"] by simp
    next
      case k: False
      then obtain j where j: "k = Suc j" "1 \<le> j"
        using "1.prems" by (cases k) auto
      have "(j < length (str_of_nat (n div 10))) = (10 ^ j \<le> n div 10)"
        by (rule "1.IH" [OF False j(2)])
      moreover have "(10 ^ j \<le> n div 10) = (10 ^ j * 10 \<le> n)"
        by (rule less_eq_div_iff_mult_less_eq) simp
      ultimately show ?thesis using len j(1) by (simp add: mult.commute)
    qed
  qed
qed

lemma isl_int_to_str:
  "isl (int_to_str rt i) = (0 < int_max_str_digits rt \<and> 10 ^ int_max_str_digits rt \<le> \<bar>i\<bar>)"
proof (cases "0 < int_max_str_digits rt")
  case True
  then have "(int_max_str_digits rt < length (str_of_nat (nat \<bar>i\<bar>)))
               = (10 ^ int_max_str_digits rt \<le> nat \<bar>i\<bar>)"
    by (intro length_str_of_nat_gt) simp
  also have "\<dots> = (int (10 ^ int_max_str_digits rt) \<le> \<bar>i\<bar>)"
    by (rule le_nat_iff) simp
  finally show ?thesis using True by (simp add: int_to_str_def)
next
  case False
  then show ?thesis by (simp add: int_to_str_def)
qed

lemma isl_optional_int:
  "isl (format_optional_int rt v) =
     (\<exists>i. v = Some i \<and> 0 < int_max_str_digits rt \<and> 10 ^ int_max_str_digits rt \<le> \<bar>i\<bar>)"
  "isl (json_optional_int rt v) =
     (\<exists>i. v = Some i \<and> 0 < int_max_str_digits rt \<and> 10 ^ int_max_str_digits rt \<le> \<bar>i\<bar>)"
  by (cases v; simp add: format_optional_int_def json_optional_int_def isl_int_to_str)+

lemma json_of_format:
  "isl (json_optional_int rt v) = isl (format_optional_int rt v)"
  by (simp add: isl_optional_int)

lemma concat_no_contribution:
  "\<forall>p \<in> set ss. \<not> P p \<Longrightarrow> concat (map (\<lambda>p. if P p then xs else []) ss) = []"
  by (induction ss) auto

lemma closed_form_cases:
  assumes inr: "\<And>found. retr = Inr found \<Longrightarrow>
                  res = Inr (concat (map (\<lambda>p. if P p then found else []) ss))"
    and inl: "\<And>e. retr = Inl e \<Longrightarrow> \<exists>p \<in> set ss. P p \<Longrightarrow> res = Inl e"
    and none: "\<forall>p \<in> set ss. \<not> P p \<Longrightarrow> res = Inr []"
  shows "res = (if (\<exists>p \<in> set ss. P p) \<and> isl retr then Inl (projl retr)
                else Inr (concat (map (\<lambda>p. if P p then candidates retr else []) ss)))"
proof (cases retr)
  case (Inl e)
  show ?thesis
  proof (cases "\<exists>p \<in> set ss. P p")
    case True
    then show ?thesis using inl [OF Inl] Inl by simp
  next
    case False
    then have no: "\<forall>p \<in> set ss. \<not> P p" by blast
    show ?thesis using none [OF no] concat_no_contribution [OF no] False by simp
  qed
next
  case (Inr found)
  have "candidates retr = found" using Inr by (simp add: candidates_def)
  then show ?thesis using inr [OF Inr] Inr by (simp cong: if_cong)
qed

subsection \<open>The loops in closed form\<close>

lemma farmer_loop_Inr:
  "farmer_database_query m q = Inr found \<Longrightarrow>
   query_farmer_specific_loop m q ss items =
     Inr (items @ concat (map (\<lambda>p. if farmer_guard q (snd p) then found else []) ss))"
  by (induction ss arbitrary: items) auto

lemma farmer_loop_none:
  "\<forall>p \<in> set ss. \<not> farmer_guard q (snd p) \<Longrightarrow>
   query_farmer_specific_loop m q ss items = Inr items"
  by (induction ss arbitrary: items) auto

lemma farmer_loop_Inl:
  "farmer_database_query m q = Inl e \<Longrightarrow> \<exists>p \<in> set ss. farmer_guard q (snd p) \<Longrightarrow>
   query_farmer_specific_loop m q ss items = Inl e"
proof (induction ss arbitrary: items)
  case Nil
  then show ?case by simp
next
  case (Cons p ss)
  obtain sid s where p: "p = (sid, s)" by (cases p)
  show ?case
  proof (cases "farmer_guard q s")
    case True
    then show ?thesis using Cons.prems(1) p by simp
  next
    case False
    then have "\<exists>p \<in> set ss. farmer_guard q (snd p)" using Cons.prems(2) p by auto
    then show ?thesis using Cons.IH [OF Cons.prems(1)] False p by auto
  qed
qed

lemma query_farmer_specific_closed:
  "query_farmer_specific m q =
     (if (\<exists>p \<in> set (sources m). farmer_guard q (snd p)) \<and> isl (farmer_database_query m q)
      then Inl (projl (farmer_database_query m q))
      else Inr (concat (map (\<lambda>p. if farmer_guard q (snd p)
                                 then candidates (farmer_database_query m q) else [])
                            (sources m))))"
  unfolding query_farmer_specific_def
  by (rule closed_form_cases)
     (simp_all only: farmer_loop_Inr farmer_loop_Inl farmer_loop_none append_Nil)

lemma country_loop_Inr:
  "country_rag_query m q = Inr found \<Longrightarrow>
   query_country_specific_loop m q ss items =
     Inr (items @ concat (map (\<lambda>p. if country_guard q (snd p) then found else []) ss))"
  by (induction ss arbitrary: items) auto

lemma country_loop_none:
  "\<forall>p \<in> set ss. \<not> country_guard q (snd p) \<Longrightarrow>
   query_country_specific_loop m q ss items = Inr items"
  by (induction ss arbitrary: items) auto

lemma country_loop_Inl:
  "country_rag_query m q = Inl e \<Longrightarrow> \<exists>p \<in> set ss. country_guard q (snd p) \<Longrightarrow>
   query_country_specific_loop m q ss items = Inl e"
proof (induction ss arbitrary: items)
  case Nil
  then show ?case by simp
next
  case (Cons p ss)
  obtain sid s where p: "p = (sid, s)" by (cases p)
  show ?case
  proof (cases "country_guard q s")
    case True
    then show ?thesis using Cons.prems(1) p by simp
  next
    case False
    then have "\<exists>p \<in> set ss. country_guard q (snd p)" using Cons.prems(2) p by auto
    then show ?thesis using Cons.IH [OF Cons.prems(1)] False p by auto
  qed
qed

lemma query_country_specific_closed:
  "query_country_specific m q =
     (if (\<exists>p \<in> set (sources m). country_guard q (snd p)) \<and> isl (country_rag_query m q)
      then Inl (projl (country_rag_query m q))
      else Inr (concat (map (\<lambda>p. if country_guard q (snd p)
                                 then candidates (country_rag_query m q) else [])
                            (sources m))))"
  unfolding query_country_specific_def
  by (rule closed_form_cases)
     (simp_all only: country_loop_Inr country_loop_Inl country_loop_none append_Nil)

lemma global_loop_Inr:
  "global_query m q = Inr found \<Longrightarrow>
   query_global_loop m q ss items =
     Inr (items @ concat (map (\<lambda>p. if global_guard (snd p) then found else []) ss))"
  by (induction ss arbitrary: items) auto

lemma global_loop_none:
  "\<forall>p \<in> set ss. \<not> global_guard (snd p) \<Longrightarrow> query_global_loop m q ss items = Inr items"
  by (induction ss arbitrary: items) auto

lemma global_loop_Inl:
  "global_query m q = Inl e \<Longrightarrow> \<exists>p \<in> set ss. global_guard (snd p) \<Longrightarrow>
   query_global_loop m q ss items = Inl e"
proof (induction ss arbitrary: items)
  case Nil
  then show ?case by simp
next
  case (Cons p ss)
  obtain sid s where p: "p = (sid, s)" by (cases p)
  show ?case
  proof (cases "global_guard s")
    case True
    then show ?thesis using Cons.prems(1) p by auto
  next
    case False
    then have "\<exists>p \<in> set ss. global_guard (snd p)" using Cons.prems(2) p by auto
    then show ?thesis using Cons.IH [OF Cons.prems(1)] False p by auto
  qed
qed

lemma query_global_closed:
  "query_global m q =
     (if (\<exists>p \<in> set (sources m). global_guard (snd p)) \<and> isl (global_query m q)
      then Inl (projl (global_query m q))
      else Inr (concat (map (\<lambda>p. if global_guard (snd p)
                                 then candidates (global_query m q) else [])
                            (sources m))))"
  unfolding query_global_def
  by (rule closed_form_cases)
     (simp_all only: global_loop_Inr global_loop_Inl global_loop_none append_Nil)

subsection \<open>query\_information in terms of the three tiers\<close>

lemma query_information_tiers:
  "query_information rt m q =
     (case farmer_tier m q of
        Inl e \<Rightarrow> Inl e
      | Inr fi \<Rightarrow>
          (case country_tier m q of
             Inl e \<Rightarrow> Inl e
           | Inr ci \<Rightarrow>
               (case global_tier m q of
                  Inl e \<Rightarrow> Inl e
                | Inr gi \<Rightarrow>
                    (case json_optional_int rt (farmer_id (query_context q)) of
                       Inl e \<Rightarrow> Inl e
                     | Inr rendered \<Rightarrow>
                    Inr (add_metadata rt q
                      (\<lparr>query = q,
                        farmer_items = slice_to (max_items_per_level q) fi,
                        country_items = slice_to (max_items_per_level q) ci,
                        global_items = slice_to (max_items_per_level q) gi,
                        metadata = []\<rparr>,
                       (if fi \<noteq> [] then [''farmer_specific''] else [])
                         @ (if ci \<noteq> [] then [''country_specific''] else [])
                         @ (if gi \<noteq> [] then [''global''] else [])))))))"
  by (simp add: query_information_def farmer_block_def country_block_def global_block_def
        farmer_tier_def country_tier_def global_tier_def slice_to_Nil log_query_def
        add_metadata_def
      split: sum.splits)

subsection \<open>Managers of the examples\<close>

lemma sources_new_manager:
  "sources (new_manager rt) =
     [(''farmer_db'', farmer_db), (''rag_knowledge'', rag_knowledge),
      (''external_search'', external_search)]"
  by (simp add: new_manager_def register_default_sources_def register_source_def
        farmer_db_def rag_knowledge_def external_search_def)

lemma retrievals_new_manager:
  "farmer_database_query (new_manager rt) q = mock_farmer_database_query rt q"
  "country_rag_query (new_manager rt) q = Inr (mock_country_rag_query q)"
  "global_query (new_manager rt) q = Inr (mock_global_query q)"
  by (simp_all add: new_manager_def register_default_sources_def register_source_def)

lemma guards_default_sources:
  "can_access_farmer_data farmer_db" "source_type farmer_db = ''database''"
  "can_access_country_data farmer_db" "\<not> can_access_global_data farmer_db"
  "\<not> can_access_farmer_data rag_knowledge" "source_type rag_knowledge = ''rag''"
  "can_access_country_data rag_knowledge" "can_access_global_data rag_knowledge"
  "\<not> can_access_farmer_data external_search" "source_type external_search = ''external''"
  "\<not> can_access_country_data external_search" "can_access_global_data external_search"
  by (simp_all add: farmer_db_def rag_knowledge_def external_search_def)

lemma isl_mock_farmer:
  "isl (mock_farmer_database_query rt q)
     = isl (format_optional_int rt (farmer_id (query_context q)))"
  by (simp add: mock_farmer_database_query_def split: sum.splits)

lemma farmer_tier_new_manager:
  "farmer_tier (new_manager rt) q =
     (if FARMER_SPECIFIC \<in> set (required_relevance_levels q)
         \<and> truthy_optional_int (farmer_id (query_context q))
      then mock_farmer_database_query rt q else Inr [])"
  by (cases "mock_farmer_database_query rt q")
     (simp_all add: farmer_tier_def query_farmer_specific_closed
        sources_new_manager retrievals_new_manager guards_default_sources candidates_def)

lemma tiers_new_manager:
  "country_tier (new_manager rt) q =
     Inr (if COUNTRY_SPECIFIC \<in> set (required_relevance_levels q)
             \<and> truthy_str (country_code (query_context q))
          then mock_country_rag_query q else [])"
  "global_tier (new_manager rt) q =
     Inr (if GLOBAL \<in> set (required_relevance_levels q)
          then mock_global_query q @ mock_global_query q else [])"
  by (simp_all add: country_tier_def global_tier_def
        query_country_specific_closed query_global_closed
        sources_new_manager retrievals_new_manager guards_default_sources candidates_def)

lemma example_queries:
  "query_context example_query = example_context"
  "required_relevance_levels example_query = [FARMER_SPECIFIC, COUNTRY_SPECIFIC, GLOBAL]"
  "max_items_per_level example_query = 5"
  "query_context no_farmer_query = example_context\<lparr>farmer_id := None\<rparr>"
  "required_relevance_levels no_farmer_query = [FARMER_SPECIFIC, COUNTRY_SPECIFIC, GLOBAL]"
  "max_items_per_level no_farmer_query = 5"
  "query_context farmer_zero_query = example_context\<lparr>farmer_id := Some 0\<rparr>"
  "query_context negative_cap_query = example_context"
  "required_relevance_levels negative_cap_query = [FARMER_SPECIFIC, COUNTRY_SPECIFIC, GLOBAL]"
  "max_items_per_level negative_cap_query = - 1"
  "query_context zero_cap_query = example_context"
  "required_relevance_levels zero_cap_query = [FARMER_SPECIFIC, COUNTRY_SPECIFIC, GLOBAL]"
  "max_items_per_level zero_cap_query = 0"
  "query_context one_cap_query = example_context"
  "required_relevance_levels one_cap_query = [FARMER_SPECIFIC, COUNTRY_SPECIFIC, GLOBAL]"
  "max_items_per_level one_cap_query = 1"
  by (simp_all add: example_query_def no_farmer_query_def farmer_zero_query_def
        negative_cap_query_def zero_cap_query_def one_cap_query_def)

lemma example_context_truthy:
  "farmer_id example_context = Some 123"
  "country_code example_context = ''BG''"
  "truthy_optional_int (Some 123)"
  "\<not> truthy_optional_int None"
  "\<not> truthy_optional_int (Some 0)"
  "truthy_str ''BG''"
  by (simp_all add: example_context_def truthy_optional_int_def truthy_str_def)

lemma utcnow_example_runtime: "utcnow_isoformat example_runtime = ''2024-05-01T08:30:00''"
  by (simp add: example_runtime_def)

lemma digits_example_runtime:
  "int_to_str example_runtime 123 = Inr ''123''"
  "int_to_str example_runtime 0 = Inr ''0''"
  by (simp_all add: int_to_str_def str_of_int_def str_of_nat.simps digit_char_def
        example_runtime_def)

lemma json_example_runtime:
  "json_optional_int example_runtime (Some 123) = Inr ''123''"
  "json_optional_int example_runtime (Some 0) = Inr ''0''"
  "json_optional_int example_runtime None = Inr ''null''"
  by (simp_all add: json_optional_int_def digits_example_runtime)

lemma mock_farmer_example:
  "farmer_id (query_context q) = Some 123 \<Longrightarrow>
   mock_farmer_database_query example_runtime q =
     Inr [\<lparr>content = ''Farmer 123'' @ [CHR 0x27] @ ''s fields and current crops'',
           relevance = FARMER_SPECIFIC,
           item_farmer_id = Some 123,
           item_country_code = None,
           language = None,
           item_source_type = ''database'',
           item_metadata = Some [(''table'', PStr ''fields''),
                                 (''query_type'', PStr ''farmer_overview'')]\<rparr>]"
  by (simp add: mock_farmer_database_query_def format_optional_int_def
        digits_example_runtime)

lemmas new_manager_eval =
  farmer_tier_new_manager tiers_new_manager mock_farmer_example json_example_runtime

lemma length_mocks:
  "mock_farmer_database_query rt q = Inr found \<Longrightarrow> length found = 1"
  "length (mock_country_rag_query q) = 1"
  "length (mock_global_query q) = 1"
  by (auto simp: mock_farmer_database_query_def mock_country_rag_query_def
        mock_global_query_def split: sum.splits)

lemma query_information_returns:
  assumes "\<not> isl (farmer_database_query m q)" "\<not> isl (country_rag_query m q)"
    "\<not> isl (global_query m q)"
    "\<not> isl (json_optional_int rt (farmer_id (query_context q)))"
  shows "\<exists>r. query_information rt m q = Inr r"
proof -
  have "\<not> isl (farmer_tier m q)" "\<not> isl (country_tier m q)" "\<not> isl (global_tier m q)"
    using assms
    by (simp_all add: farmer_tier_def country_tier_def global_tier_def
          query_farmer_specific_closed query_country_specific_closed query_global_closed)
  then show ?thesis
    using assms(4) by (auto simp: query_information_tiers split: sum.splits)
qed

lemma new_manager_returns:
  assumes "farmer_id (query_context q) = Some 123 \<or> farmer_id (query_context q) = Some 0
           \<or> farmer_id (query_context q) = None"
  shows "\<exists>r. query_information example_runtime example_manager q = Inr r"
proof (rule query_information_returns)
  have j: "\<not> isl (json_optional_int example_runtime (farmer_id (query_context q)))"
    using assms by (auto simp: json_example_runtime)
  show "\<not> isl (json_optional_int example_runtime (farmer_id (query_context q)))"
    by (rule j)
  show "\<not> isl (farmer_database_query example_manager q)"
    using j by (simp add: retrievals_new_manager isl_mock_farmer json_of_format)
qed (simp_all add: retrievals_new_manager)

lemma no_farmer_tier:
  "\<not> truthy_optional_int (farmer_id (query_context q)) \<Longrightarrow> query_farmer_specific m q = Inr []"
  by (simp add: query_farmer_specific_def farmer_loop_none)

lemma farmer_items_of_result:
  "query_information rt m q = Inr r \<Longrightarrow>
   \<exists>fi. farmer_tier m q = Inr fi \<and> farmer_items r = slice_to (max_items_per_level q) fi"
  by (auto simp: query_information_tiers add_metadata_def split: sum.splits)

lemma country_items_of_result:
  "query_information rt m q = Inr r \<Longrightarrow>
   \<exists>ci. country_tier m q = Inr ci \<and> country_items r = slice_to (max_items_per_level q) ci"
  by (auto simp: query_information_tiers add_metadata_def split: sum.splits)

lemma global_items_of_result:
  "query_information rt m q = Inr r \<Longrightarrow>
   \<exists>gi. global_tier m q = Inr gi \<and> global_items r = slice_to (max_items_per_level q) gi"
  by (auto simp: query_information_tiers add_metadata_def split: sum.splits)


lemma raised_without_farmer_tier:
  "query_information rt m q = Inl e \<Longrightarrow> query_farmer_specific m q = Inr [] \<Longrightarrow>
   farmer_id (query_context q) = None \<Longrightarrow>
   country_rag_query m q = Inl e \<or> global_query m q = Inl e"
  by (auto simp: query_information_tiers farmer_tier_def country_tier_def global_tier_def
        query_country_specific_closed query_global_closed json_optional_int_def
      split: sum.splits if_splits)

lemma if_Inl_Inr_eq: "(if c then Inl a else Inr x) = Inr y \<Longrightarrow> y = x"
  by (cases c) simp_all

lemma farmer_tier_items:
  assumes "farmer_tier m q = Inr fi"
  shows "fi = (if FARMER_SPECIFIC \<in> set (required_relevance_levels q)
               then concat (map (\<lambda>p. if farmer_guard q (snd p)
                                     then candidates (farmer_database_query m q) else [])
                                (sources m))
               else [])"
proof (cases "FARMER_SPECIFIC \<in> set (required_relevance_levels q)")
  case True
  then have "query_farmer_specific m q = Inr fi"
    using assms by (simp add: farmer_tier_def)
  from if_Inl_Inr_eq [OF trans [OF query_farmer_specific_closed [symmetric] this]]
  show ?thesis by (simp only: True if_True)
next
  case False
  then show ?thesis using assms by (simp add: farmer_tier_def)
qed

lemma country_tier_items:
  assumes "country_tier m q = Inr ci"
  shows "ci = (if COUNTRY_SPECIFIC \<in> set (required_relevance_levels q)
               then concat (map (\<lambda>p. if country_guard q (snd p)
                                     then candidates (country_rag_query m q) else [])
                                (sources m))
               else [])"
proof (cases "COUNTRY_SPECIFIC \<in> set (required_relevance_levels q)")
  case True
  then have "query_country_specific m q = Inr ci"
    using assms by (simp add: country_tier_def)
  from if_Inl_Inr_eq [OF trans [OF query_country_specific_closed [symmetric] this]]
  show ?thesis by (simp only: True if_True)
next
  case False
  then show ?thesis using assms by (simp add: country_tier_def)
qed

lemma global_tier_items:
  assumes "global_tier m q = Inr gi"
  shows "gi = (if GLOBAL \<in> set (required_relevance_levels q)
               then concat (map (\<lambda>p. if global_guard (snd p)
                                     then candidates (global_query m q) else [])
                                (sources m))
               else [])"
proof (cases "GLOBAL \<in> set (required_relevance_levels q)")
  case True
  then have "query_global m q = Inr gi"
    using assms by (simp add: global_tier_def)
  from if_Inl_Inr_eq [OF trans [OF query_global_closed [symmetric] this]]
  show ?thesis by (simp only: True if_True)
next
  case False
  then show ?thesis using assms by (simp add: global_tier_def)
qed

section \<open>Properties of the validator\<close>

text \<open>
  C2. The validator rejects an item exactly when the item is farmer-specific and the source
  may not access farmer data, or the item is country-specific and the source may not access
  country data. Whatever the flags of the source, an item of the global tier is accepted.
\<close>

theorem C2_validator_truth_table:
  "(validate_privacy_compliance item source = False) =
     ((relevance item = FARMER_SPECIFIC \<and> can_access_farmer_data source = False) \<or>
      (relevance item = COUNTRY_SPECIFIC \<and> can_access_country_data source = False))
   \<and> validate_privacy_compliance (item\<lparr>relevance := GLOBAL\<rparr>) source = True"
  by (simp add: validate_privacy_compliance_def)

section \<open>The farmer tier without a usable farmer id\<close>

text \<open>
  C5. When the context of the query has no \<open>farmer_id\<close>, the farmer tier query returns
  the empty list whatever sources are registered and whatever the retrievals would
  return; every result of \<open>query_information\<close> has an empty \<open>farmer_items\<close>; and if
  \<open>query_information\<close> raises at all, the exception is one raised by the country or the
  global retrieval, never by the farmer tier.
\<close>

theorem C5_farmer_id_absent:
  assumes "farmer_id (query_context q) = None"
  shows "query_farmer_specific m q = Inr []
       \<and> (\<forall>r. query_information rt m q = Inr r \<longrightarrow> farmer_items r = [])
       \<and> (\<forall>e. query_information rt m q = Inl e \<longrightarrow>
               country_rag_query m q = Inl e \<or> global_query m q = Inl e)"
proof -
  have nt: "\<not> truthy_optional_int (farmer_id (query_context q))"
    using assms by (simp add: truthy_optional_int_def)
  have tier: "query_farmer_specific m q = Inr []"
    by (rule no_farmer_tier [OF nt])
  have "farmer_items r = []" if "query_information rt m q = Inr r" for r
    using farmer_items_of_result [OF that] tier
    by (auto simp: farmer_tier_def slice_to_Nil split: if_splits)
  moreover have "country_rag_query m q = Inl e \<or> global_query m q = Inl e"
    if "query_information rt m q = Inl e" for e
    by (rule raised_without_farmer_tier [OF that tier assms])
  ultimately show ?thesis using tier by blast
qed

theorem C5_farmer_id_absent_witness:
  "farmer_id (query_context no_farmer_query) = None
   \<and> query_farmer_specific example_manager no_farmer_query = Inr []
   \<and> map_sum id farmer_items (query_information example_runtime example_manager no_farmer_query)
       = Inr []"
proof -
  have h: "farmer_id (query_context no_farmer_query) = None"
    by (simp add: no_farmer_query_def)
  obtain r where r: "query_information example_runtime example_manager no_farmer_query = Inr r"
    using new_manager_returns [of no_farmer_query]
    by (auto simp: example_queries example_context_truthy)
  show ?thesis
    using C5_farmer_id_absent [OF h, of example_manager example_runtime] h r by simp
qed

text \<open>
  C9. The test on \<open>farmer_id\<close> is a truth test, so the identifier 0 behaves like a missing
  one: the farmer tier query returns the empty list even when sources with access to
  farmer data are registered, and every result of \<open>query_information\<close> has an empty
  \<open>farmer_items\<close>.
\<close>

theorem C9_farmer_id_zero:
  assumes "farmer_id (query_context q) = Some 0"
  shows "query_farmer_specific m q = Inr []
       \<and> (\<forall>r. query_information rt m q = Inr r \<longrightarrow> farmer_items r = [])"
proof -
  have nt: "\<not> truthy_optional_int (farmer_id (query_context q))"
    using assms by (simp add: truthy_optional_int_def)
  have tier: "query_farmer_specific m q = Inr []"
    by (rule no_farmer_tier [OF nt])
  have "farmer_items r = []" if "query_information rt m q = Inr r" for r
    using farmer_items_of_result [OF that] tier
    by (auto simp: farmer_tier_def slice_to_Nil split: if_splits)
  then show ?thesis using tier by blast
qed

theorem C9_farmer_id_zero_witness:
  "farmer_id (query_context farmer_zero_query) = Some 0
   \<and> (\<exists>p \<in> set (sources example_manager). can_access_farmer_data (snd p))
   \<and> query_farmer_specific example_manager farmer_zero_query = Inr []
   \<and> map_sum id farmer_items (query_information example_runtime example_manager farmer_zero_query)
       = Inr []"
proof -
  have h: "farmer_id (query_context farmer_zero_query) = Some 0"
    by (simp add: farmer_zero_query_def)
  have s: "\<exists>p \<in> set (sources example_manager). can_access_farmer_data (snd p)"
    by (simp add: sources_new_manager guards_default_sources)
  obtain r where r: "query_information example_runtime example_manager farmer_zero_query = Inr r"
    using new_manager_returns [of farmer_zero_query]
    by (auto simp: example_queries example_context_truthy)
  show ?thesis
    using C9_farmer_id_zero [OF h, of example_manager example_runtime] h s r by simp
qed

section \<open>Which sources contribute to a tier\<close>

text \<open>
  C4 (as the code has it). The capability flag and the precondition on the context are
  not the whole test: each loop also looks at the kind of the source. The farmer tier is
  made of the candidates of the farmer retrieval, once for every registered source, in
  registry order, that may access farmer data and is of kind \<open>database\<close>, provided the
  \<open>farmer_id\<close> of the context is true; the country tier likewise for the sources that may
  access country data and are of kind \<open>rag\<close>, provided the country code is not empty; the
  global tier for the sources that may access global data and are of kind \<open>rag\<close> or
  \<open>external\<close>. Every other source contributes nothing. If a retrieval raises and at least
  one source passes the test of its tier, the tier query raises the same exception.
\<close>

theorem C4_contributing_sources:
  "query_farmer_specific m q =
     (if (\<exists>p \<in> set (sources m).
            can_access_farmer_data (snd p)
            \<and> truthy_optional_int (farmer_id (query_context q))
            \<and> source_type (snd p) = ''database'')
         \<and> isl (farmer_database_query m q)
      then Inl (projl (farmer_database_query m q))
      else Inr (concat (map (\<lambda>p. if can_access_farmer_data (snd p)
                                    \<and> truthy_optional_int (farmer_id (query_context q))
                                    \<and> source_type (snd p) = ''database''
                                 then candidates (farmer_database_query m q) else [])
                            (sources m))))
   \<and> query_country_specific m q =
     (if (\<exists>p \<in> set (sources m).
            can_access_country_data (snd p)
            \<and> truthy_str (country_code (query_context q))
            \<and> source_type (snd p) = ''rag'')
         \<and> isl (country_rag_query m q)
      then Inl (projl (country_rag_query m q))
      else Inr (concat (map (\<lambda>p. if can_access_country_data (snd p)
                                    \<and> truthy_str (country_code (query_context q))
                                    \<and> source_type (snd p) = ''rag''
                                 then candidates (country_rag_query m q) else [])
                            (sources m))))
   \<and> query_global m q =
     (if (\<exists>p \<in> set (sources m).
            can_access_global_data (snd p)
            \<and> (source_type (snd p) = ''rag'' \<or> source_type (snd p) = ''external''))
         \<and> isl (global_query m q)
      then Inl (projl (global_query m q))
      else Inr (concat (map (\<lambda>p. if can_access_global_data (snd p)
                                    \<and> (source_type (snd p) = ''rag''
                                        \<or> source_type (snd p) = ''external'')
                                 then candidates (global_query m q) else [])
                            (sources m))))"
  using query_farmer_specific_closed [of m q] query_country_specific_closed [of m q]
    query_global_closed [of m q]
  by (intro conjI)

text \<open>
  C4 as stated fails: a manager whose only source is a cache that may access global data,
  with the retrieval of the source returning one item, has an empty global tier.
\<close>

theorem C4_counterexample:
  "sources cache_manager = [(''cache'', cache_source)]
   \<and> can_access_global_data cache_source
   \<and> global_query cache_manager example_query = Inr (mock_global_query example_query)
   \<and> length (mock_global_query example_query) = 1
   \<and> query_global cache_manager example_query = Inr []
   \<and> map_sum id global_items (query_information example_runtime cache_manager example_query)
       = Inr []"
proof -
  have s: "sources cache_manager = [(''cache'', cache_source)]"
    by (simp add: cache_manager_def register_source_def cache_source_def)
  have c: "can_access_global_data cache_source" "source_type cache_source = ''cache''"
    "can_access_country_data cache_source" "\<not> can_access_farmer_data cache_source"
    by (simp_all add: cache_source_def)
  have g: "farmer_database_query cache_manager q = mock_farmer_database_query example_runtime q"
    "country_rag_query cache_manager q = Inr (mock_country_rag_query q)"
    "global_query cache_manager q = Inr (mock_global_query q)" for q
    by (simp_all add: cache_manager_def register_source_def retrievals_new_manager)
  have t: "query_global cache_manager example_query = Inr []"
    by (simp add: query_global_closed s c g)
  obtain r where r: "query_information example_runtime cache_manager example_query = Inr r"
    using query_information_returns [of cache_manager example_query example_runtime]
    by (auto simp: g mock_farmer_example example_queries example_context_truthy
          json_example_runtime)
  have "global_items r = []"
    using global_items_of_result [OF r] t
    by (auto simp: global_tier_def slice_to_Nil split: if_splits)
  then show ?thesis
    using s c g t r by (simp add: mock_global_query_def)
qed

section \<open>The cap on each tier\<close>

text \<open>
  C6 (as the code has it). For a query whose \<open>max_items_per_level\<close> is not negative, each
  of the three lists of a result has at most that many items. The list of a required tier
  is the first \<open>max_items_per_level\<close> items of the concatenation, in registry order, of the
  candidates of the sources that pass the test of the tier; the list of a tier that is not
  required is empty. (With a negative \<open>max_items_per_level\<close> the slice drops items from the
  end instead.)
\<close>

theorem C6_per_tier_cap:
  assumes "0 \<le> max_items_per_level q" and "query_information rt m q = Inr r"
  shows "length (farmer_items r) \<le> nat (max_items_per_level q)
       \<and> length (country_items r) \<le> nat (max_items_per_level q)
       \<and> length (global_items r) \<le> nat (max_items_per_level q)
       \<and> farmer_items r =
           (if FARMER_SPECIFIC \<in> set (required_relevance_levels q)
            then take (nat (max_items_per_level q))
                   (concat (map (\<lambda>p. if farmer_guard q (snd p)
                                      then candidates (farmer_database_query m q) else [])
                                (sources m)))
            else [])
       \<and> country_items r =
           (if COUNTRY_SPECIFIC \<in> set (required_relevance_levels q)
            then take (nat (max_items_per_level q))
                   (concat (map (\<lambda>p. if country_guard q (snd p)
                                      then candidates (country_rag_query m q) else [])
                                (sources m)))
            else [])
       \<and> global_items r =
           (if GLOBAL \<in> set (required_relevance_levels q)
            then take (nat (max_items_per_level q))
                   (concat (map (\<lambda>p. if global_guard (snd p)
                                      then candidates (global_query m q) else [])
                                (sources m)))
            else [])"
proof -
  obtain fi where fi: "farmer_tier m q = Inr fi"
      "farmer_items r = slice_to (max_items_per_level q) fi"
    using farmer_items_of_result [OF assms(2)] by blast
  obtain ci where ci: "country_tier m q = Inr ci"
      "country_items r = slice_to (max_items_per_level q) ci"
    using country_items_of_result [OF assms(2)] by blast
  obtain gi where gi: "global_tier m q = Inr gi"
      "global_items r = slice_to (max_items_per_level q) gi"
    using global_items_of_result [OF assms(2)] by blast
  have len: "length (farmer_items r) \<le> nat (max_items_per_level q)"
      "length (country_items r) \<le> nat (max_items_per_level q)"
      "length (global_items r) \<le> nat (max_items_per_level q)"
    using fi(2) ci(2) gi(2) assms(1) by (simp_all add: length_slice_to)
  have take_if: "take n (if b then xs else []) = (if b then take n xs else [])"
    for n b and xs :: "InformationItem list"
    by simp
  have f: "farmer_items r = take (nat (max_items_per_level q))
             (if FARMER_SPECIFIC \<in> set (required_relevance_levels q)
              then concat (map (\<lambda>p. if farmer_guard q (snd p)
                                    then candidates (farmer_database_query m q) else [])
                               (sources m))
              else [])"
    using fi(2) farmer_tier_items [OF fi(1)] assms(1) by (simp only: slice_to_nonneg)
  have c: "country_items r = take (nat (max_items_per_level q))
             (if COUNTRY_SPECIFIC \<in> set (required_relevance_levels q)
              then concat (map (\<lambda>p. if country_guard q (snd p)
                                    then candidates (country_rag_query m q) else [])
                               (sources m))
              else [])"
    using ci(2) country_tier_items [OF ci(1)] assms(1) by (simp only: slice_to_nonneg)
  have g: "global_items r = take (nat (max_items_per_level q))
             (if GLOBAL \<in> set (required_relevance_levels q)
              then concat (map (\<lambda>p. if global_guard (snd p)
                                    then candidates (global_query m q) else [])
                               (sources m))
              else [])"
    using gi(2) global_tier_items [OF gi(1)] assms(1) by (simp only: slice_to_nonneg)
  show ?thesis
    using len f [unfolded take_if] c [unfolded take_if] g [unfolded take_if]
    by (intro conjI)
qed

theorem C6_per_tier_cap_witness:
  "0 \<le> max_items_per_level one_cap_query
   \<and> global_tier example_manager one_cap_query
       = Inr (mock_global_query one_cap_query @ mock_global_query one_cap_query)
   \<and> map_sum id global_items (query_information example_runtime example_manager one_cap_query)
       = Inr (mock_global_query one_cap_query)"
proof -
  have h: "0 \<le> max_items_per_level one_cap_query"
    by (simp add: example_queries)
  obtain r where r: "query_information example_runtime example_manager one_cap_query = Inr r"
    using new_manager_returns [of one_cap_query]
    by (auto simp: example_queries example_context_truthy)
  have "global_items r = mock_global_query one_cap_query"
    using C6_per_tier_cap [OF h r]
    by (simp add: example_queries sources_new_manager retrievals_new_manager
          guards_default_sources candidates_def mock_global_query_def)
  then show ?thesis
    using r by (simp add: new_manager_eval example_queries)
qed

text \<open>
  C6 as stated fails for a negative cap: with \<open>max_items_per_level = -1\<close> the two global
  candidates of the default sources are cut to one, and one is more than \<open>-1\<close>.
\<close>

theorem C6_counterexample:
  "max_items_per_level negative_cap_query = - 1
   \<and> map_sum id global_items
        (query_information example_runtime example_manager negative_cap_query)
       = Inr (mock_global_query negative_cap_query)
   \<and> length (mock_global_query negative_cap_query) = 1
   \<and> \<not> int (length (mock_global_query negative_cap_query))
          \<le> max_items_per_level negative_cap_query"
  by (simp add: query_information_tiers new_manager_eval example_queries
        example_context_truthy add_metadata_def slice_to_def length_mocks)

section \<open>The tiers named in the metadata\<close>

text \<open>
  C7 (as the code has it). The entry \<open>sources_used\<close> of the metadata lists, in the order
  farmer, country, global, the names of the tiers whose query produced at least one
  candidate before the cut to \<open>max_items_per_level\<close> (a tier that is not required produces
  none). When \<open>max_items_per_level\<close> is at least 1 these are exactly the tiers whose list
  in the result is not empty.
\<close>

theorem C7_sources_used:
  assumes "query_information rt m q = Inr r"
  shows "sources_used_of r =
           Some (PList (map PStr
             ((if candidates (farmer_tier m q) \<noteq> [] then [''farmer_specific''] else [])
              @ (if candidates (country_tier m q) \<noteq> [] then [''country_specific''] else [])
              @ (if candidates (global_tier m q) \<noteq> [] then [''global''] else []))))
       \<and> (1 \<le> max_items_per_level q \<longrightarrow>
            sources_used_of r =
              Some (PList (map PStr
                ((if farmer_items r \<noteq> [] then [''farmer_specific''] else [])
                 @ (if country_items r \<noteq> [] then [''country_specific''] else [])
                 @ (if global_items r \<noteq> [] then [''global''] else [])))))"
  using assms
  by (auto simp: query_information_tiers add_metadata_def sources_used_of_def
        candidates_def slice_to_eq_Nil_iff
      split: sum.splits)

theorem C7_sources_used_witness:
  "1 \<le> max_items_per_level no_farmer_query
   \<and> map_sum id farmer_items (query_information example_runtime example_manager no_farmer_query)
       = Inr []
   \<and> map_sum id sources_used_of
        (query_information example_runtime example_manager no_farmer_query)
       = Inr (Some (PList [PStr ''country_specific'', PStr ''global'']))"
proof -
  have h: "1 \<le> max_items_per_level no_farmer_query"
    by (simp add: example_queries)
  obtain r where r: "query_information example_runtime example_manager no_farmer_query = Inr r"
    using new_manager_returns [of no_farmer_query]
    by (auto simp: example_queries example_context_truthy)
  have items: "farmer_items r = []" "country_items r \<noteq> []" "global_items r \<noteq> []"
    using r
    by (auto simp: query_information_tiers new_manager_eval example_queries
          example_context_truthy add_metadata_def slice_to_def length_mocks
          mock_country_rag_query_def mock_global_query_def)
  have "sources_used_of r = Some (PList [PStr ''country_specific'', PStr ''global''])"
    using C7_sources_used [OF r, THEN conjunct2, THEN mp, OF h] items by simp
  then show ?thesis
    using r h items by simp
qed

text \<open>
  C7 as stated fails when the cap is 0: all three lists of the result are empty, and
  \<open>sources_used\<close> still names the three tiers.
\<close>

theorem C7_counterexample:
  "map_sum id get_all_items_by_priority
     (query_information example_runtime example_manager zero_cap_query) = Inr []
   \<and> map_sum id sources_used_of
       (query_information example_runtime example_manager zero_cap_query)
       = Inr (Some (PList [PStr ''farmer_specific'', PStr ''country_specific'',
                           PStr ''global'']))"
  by (simp add: query_information_tiers new_manager_eval example_queries
        example_context_truthy add_metadata_def slice_to_def sources_used_of_def
        get_all_items_by_priority_def
        mock_country_rag_query_def mock_global_query_def)

section \<open>The context fingerprint\<close>

text \<open>
  C8. The fingerprint of a context is the first 16 characters of the hexadecimal SHA-256
  digest of the string \<open>whatsapp_number:country_code:preferred_language\<close>, and it is what
  \<open>query_information\<close> stores under \<open>context_hash\<close>. The digest being 64 hexadecimal
  characters, the fingerprint is 16 hexadecimal characters; and two contexts that agree
  on the three fields have the same fingerprint.
\<close>

theorem C8_context_fingerprint:
  "hash_context rt c =
     take 16 (sha256_hexdigest rt
       (whatsapp_number c @ '':'' @ country_code c @ '':''
          @ format_optional_str (preferred_language c)))
   \<and> (\<forall>r. query_information rt m q = Inr r \<longrightarrow>
         map_of (metadata r) ''context_hash'' = Some (PStr (hash_context rt (query_context q))))
   \<and> (length (sha256_hexdigest rt (context_str c)) = 64
        \<and> set (sha256_hexdigest rt (context_str c)) \<subseteq> set ''0123456789abcdef''
      \<longrightarrow> length (hash_context rt c) = 16
          \<and> set (hash_context rt c) \<subseteq> set ''0123456789abcdef'')
   \<and> (whatsapp_number c = whatsapp_number c' \<and> country_code c = country_code c'
        \<and> preferred_language c = preferred_language c'
      \<longrightarrow> hash_context rt c = hash_context rt c')"
proof -
  have a: "hash_context rt c =
     take 16 (sha256_hexdigest rt
       (whatsapp_number c @ '':'' @ country_code c @ '':''
          @ format_optional_str (preferred_language c)))"
    by (simp add: hash_context_def context_str_def)
  have b: "map_of (metadata r) ''context_hash'' = Some (PStr (hash_context rt (query_context q)))"
    if "query_information rt m q = Inr r" for r
    using that
    by (auto simp: query_information_tiers add_metadata_def split: sum.splits)
  have c: "length (hash_context rt c) = 16
          \<and> set (hash_context rt c) \<subseteq> set ''0123456789abcdef''"
    if "length (sha256_hexdigest rt (context_str c)) = 64
        \<and> set (sha256_hexdigest rt (context_str c)) \<subseteq> set ''0123456789abcdef''"
    unfolding hash_context_def
    by (rule take_of_digest [OF conjunct1 [OF that] conjunct2 [OF that]])
  have d: "hash_context rt c = hash_context rt c'"
    if "whatsapp_number c = whatsapp_number c' \<and> country_code c = country_code c'
        \<and> preferred_language c = preferred_language c'"
    using that by (simp add: hash_context_def context_str_def)
  show ?thesis
    by (intro conjI allI impI) (rule a, erule b, erule c [THEN conjunct1],
      erule c [THEN conjunct2], erule d)
qed

theorem C8_context_fingerprint_witness:
  "hash_context example_runtime example_context = ''cc4d390252136c5a''
   \<and> length (hash_context example_runtime example_context) = 16
   \<and> hash_context example_runtime
       (example_context\<lparr>farmer_id := None, timezone := Some ''EET''\<rparr>)
       = hash_context example_runtime example_context
   \<and> map_sum id metadata (query_information example_runtime example_manager example_query)
       = Inr [(''query_timestamp'', PStr ''2024-05-01T08:30:00''),
              (''sources_used'', PList [PStr ''farmer_specific'', PStr ''country_specific'',
                                        PStr ''global'']),
              (''total_items'', PInt 4),
              (''context_hash'', PStr ''cc4d390252136c5a'')]"
proof -
  let ?c' = "example_context\<lparr>farmer_id := None, timezone := Some ''EET''\<rparr>"
  have v: "hash_context example_runtime example_context = ''cc4d390252136c5a''"
    by (simp add: hash_context_def context_str_def example_runtime_def example_context_def
          format_optional_str_def)
  have dg: "length (sha256_hexdigest example_runtime (context_str example_context)) = 64
        \<and> set (sha256_hexdigest example_runtime (context_str example_context))
            \<subseteq> set ''0123456789abcdef''"
    by (simp add: context_str_def example_runtime_def example_context_def
          format_optional_str_def)
  have same: "whatsapp_number example_context = whatsapp_number ?c'
        \<and> country_code example_context = country_code ?c'
        \<and> preferred_language example_context = preferred_language ?c'"
    by simp
  have md: "map_sum id metadata (query_information example_runtime example_manager example_query)
       = Inr [(''query_timestamp'', PStr ''2024-05-01T08:30:00''),
              (''sources_used'', PList [PStr ''farmer_specific'', PStr ''country_specific'',
                                        PStr ''global'']),
              (''total_items'', PInt 4),
              (''context_hash'', PStr ''cc4d390252136c5a'')]"
    by (simp add: query_information_tiers new_manager_eval example_queries
          example_context_truthy add_metadata_def slice_to_def length_mocks v
          get_all_items_by_priority_def utcnow_example_runtime
          mock_country_rag_query_def mock_global_query_def)
  note T = C8_context_fingerprint
             [of example_runtime example_context example_manager example_query ?c']
  note T3 = T [THEN conjunct2, THEN conjunct2, THEN conjunct1, THEN mp, OF dg]
  note T4 = T [THEN conjunct2, THEN conjunct2, THEN conjunct2, THEN mp, OF same]
  show ?thesis
    by (rule conjI [OF v conjI [OF conjunct1 [OF T3] conjI [OF T4 [symmetric] md]]])
qed

section \<open>Where the items of a result come from\<close>

lemma in_concat_contributions:
  "x \<in> set (concat (map (\<lambda>p. if P p then xs else []) ss)) \<Longrightarrow> \<exists>p \<in> set ss. P p \<and> x \<in> set xs"
  by (induction ss) (auto split: if_splits)

lemma farmer_items_origin:
  assumes "query_information rt m q = Inr r" and "item \<in> set (farmer_items r)"
  shows "\<exists>p \<in> set (sources m). farmer_guard q (snd p)
           \<and> item \<in> set (candidates (farmer_database_query m q))"
proof -
  obtain fi where fi: "farmer_tier m q = Inr fi"
      "farmer_items r = slice_to (max_items_per_level q) fi"
    using farmer_items_of_result [OF assms(1)] by blast
  have "item \<in> set fi"
    using assms(2) fi(2) set_slice_to [of "max_items_per_level q" fi] by auto
  then have "item \<in> set (concat (map (\<lambda>p. if farmer_guard q (snd p)
                 then candidates (farmer_database_query m q) else []) (sources m)))"
    using farmer_tier_items [OF fi(1)] by (simp split: if_splits)
  then show ?thesis by (rule in_concat_contributions)
qed

lemma country_items_origin:
  assumes "query_information rt m q = Inr r" and "item \<in> set (country_items r)"
  shows "\<exists>p \<in> set (sources m). country_guard q (snd p)
           \<and> item \<in> set (candidates (country_rag_query m q))"
proof -
  obtain ci where ci: "country_tier m q = Inr ci"
      "country_items r = slice_to (max_items_per_level q) ci"
    using country_items_of_result [OF assms(1)] by blast
  have "item \<in> set ci"
    using assms(2) ci(2) set_slice_to [of "max_items_per_level q" ci] by auto
  then have "item \<in> set (concat (map (\<lambda>p. if country_guard q (snd p)
                 then candidates (country_rag_query m q) else []) (sources m)))"
    using country_tier_items [OF ci(1)] by (simp split: if_splits)
  then show ?thesis by (rule in_concat_contributions)
qed

lemma global_items_origin:
  assumes "query_information rt m q = Inr r" and "item \<in> set (global_items r)"
  shows "\<exists>p \<in> set (sources m). global_guard (snd p)
           \<and> item \<in> set (candidates (global_query m q))"
proof -
  obtain gi where gi: "global_tier m q = Inr gi"
      "global_items r = slice_to (max_items_per_level q) gi"
    using global_items_of_result [OF assms(1)] by blast
  have "item \<in> set gi"
    using assms(2) gi(2) set_slice_to [of "max_items_per_level q" gi] by auto
  then have "item \<in> set (concat (map (\<lambda>p. if global_guard (snd p)
                 then candidates (global_query m q) else []) (sources m)))"
    using global_tier_items [OF gi(1)] by (simp split: if_splits)
  then show ?thesis by (rule in_concat_contributions)
qed

lemma relevance_of_mocks:
  "item \<in> set (candidates (mock_farmer_database_query rt q)) \<Longrightarrow>
     relevance item = FARMER_SPECIFIC"
  "item \<in> set (mock_country_rag_query q) \<Longrightarrow> relevance item = COUNTRY_SPECIFIC"
  "item \<in> set (mock_global_query q) \<Longrightarrow> relevance item = GLOBAL"
  by (auto simp: mock_farmer_database_query_def mock_country_rag_query_def
        mock_global_query_def candidates_def split: sum.splits)

lemma validate_when_capable:
  "relevance item = FARMER_SPECIFIC \<Longrightarrow> can_access_farmer_data s \<Longrightarrow>
     validate_privacy_compliance item s"
  "relevance item = COUNTRY_SPECIFIC \<Longrightarrow> can_access_country_data s \<Longrightarrow>
     validate_privacy_compliance item s"
  "relevance item = GLOBAL \<Longrightarrow> validate_privacy_compliance item s"
  by (simp_all add: validate_privacy_compliance_def)

text \<open>
  What protects a tier in \<open>query_information\<close> is the test that guards the retrieval
  call: every item of a list was handed back by the retrieval of its tier, called for a
  registered source whose capability flag for that tier is set. The retrievals written in
  the source tag what they return with the tier they serve, so with them every item of a
  result passes the validator for the source it was retrieved for.
\<close>

lemma items_retrieved_for_capable_sources:
  assumes "query_information rt m q = Inr r"
  shows "(\<forall>item \<in> set (farmer_items r).
            \<exists>p \<in> set (sources m). can_access_farmer_data (snd p)
              \<and> item \<in> set (candidates (farmer_database_query m q)))
       \<and> (\<forall>item \<in> set (country_items r).
            \<exists>p \<in> set (sources m). can_access_country_data (snd p)
              \<and> item \<in> set (candidates (country_rag_query m q)))
       \<and> (\<forall>item \<in> set (global_items r).
            \<exists>p \<in> set (sources m). can_access_global_data (snd p)
              \<and> item \<in> set (candidates (global_query m q)))
       \<and> (farmer_database_query m q = mock_farmer_database_query rt q
            \<and> country_rag_query m q = Inr (mock_country_rag_query q)
            \<and> global_query m q = Inr (mock_global_query q)
          \<longrightarrow>
            (\<forall>item \<in> set (farmer_items r).
               relevance item = FARMER_SPECIFIC
               \<and> (\<exists>p \<in> set (sources m). can_access_farmer_data (snd p)
                     \<and> validate_privacy_compliance item (snd p)))
          \<and> (\<forall>item \<in> set (country_items r).
               relevance item = COUNTRY_SPECIFIC
               \<and> (\<exists>p \<in> set (sources m). can_access_country_data (snd p)
                     \<and> validate_privacy_compliance item (snd p)))
          \<and> (\<forall>item \<in> set (global_items r).
               relevance item = GLOBAL
               \<and> (\<exists>p \<in> set (sources m). can_access_global_data (snd p)
                     \<and> validate_privacy_compliance item (snd p))))"
proof -
  have f: "\<exists>p \<in> set (sources m). can_access_farmer_data (snd p)
              \<and> item \<in> set (candidates (farmer_database_query m q))"
    if "item \<in> set (farmer_items r)" for item
    using farmer_items_origin [OF assms that] by blast
  have c: "\<exists>p \<in> set (sources m). can_access_country_data (snd p)
              \<and> item \<in> set (candidates (country_rag_query m q))"
    if "item \<in> set (country_items r)" for item
    using country_items_origin [OF assms that] by blast
  have g: "\<exists>p \<in> set (sources m). can_access_global_data (snd p)
              \<and> item \<in> set (candidates (global_query m q))"
    if "item \<in> set (global_items r)" for item
    using global_items_origin [OF assms that] by blast
  have f': "relevance item = FARMER_SPECIFIC
            \<and> (\<exists>p \<in> set (sources m). can_access_farmer_data (snd p)
                  \<and> validate_privacy_compliance item (snd p))"
    if h1: "farmer_database_query m q = mock_farmer_database_query rt q"
      and h2: "item \<in> set (farmer_items r)" for item
  proof -
    obtain p where p: "p \<in> set (sources m)" "can_access_farmer_data (snd p)"
        "item \<in> set (candidates (farmer_database_query m q))"
      using f [OF h2] by blast
    have rel: "relevance item = FARMER_SPECIFIC"
      using p(3) h1 by (simp add: relevance_of_mocks(1))
    show ?thesis
      using rel p(1,2) validate_when_capable(1) [OF rel p(2)] by blast
  qed
  have c': "relevance item = COUNTRY_SPECIFIC
            \<and> (\<exists>p \<in> set (sources m). can_access_country_data (snd p)
                  \<and> validate_privacy_compliance item (snd p))"
    if h1: "country_rag_query m q = Inr (mock_country_rag_query q)"
      and h2: "item \<in> set (country_items r)" for item
  proof -
    obtain p where p: "p \<in> set (sources m)" "can_access_country_data (snd p)"
        "item \<in> set (candidates (country_rag_query m q))"
      using c [OF h2] by blast
    have rel: "relevance item = COUNTRY_SPECIFIC"
      using p(3) h1 by (simp add: candidates_def relevance_of_mocks(2))
    show ?thesis
      using rel p(1,2) validate_when_capable(2) [OF rel p(2)] by blast
  qed
  have g': "relevance item = GLOBAL
            \<and> (\<exists>p \<in> set (sources m). can_access_global_data (snd p)
                  \<and> validate_privacy_compliance item (snd p))"
    if h1: "global_query m q = Inr (mock_global_query q)"
      and h2: "item \<in> set (global_items r)" for item
  proof -
    obtain p where p: "p \<in> set (sources m)" "can_access_global_data (snd p)"
        "item \<in> set (candidates (global_query m q))"
      using g [OF h2] by blast
    have rel: "relevance item = GLOBAL"
      using p(3) h1 by (simp add: candidates_def relevance_of_mocks(3))
    show ?thesis
      using rel p(1,2) validate_when_capable(3) [OF rel] by blast
  qed
  show ?thesis
    using f c g f' c' g' by blast
qed

text \<open>
  C1. The claim is that the validator is applied to every item before it enters a result,
  so that no list holds an item whose tier the producing source is not authorised for.
  \<open>query_information\<close> never calls \<open>validate_privacy_compliance\<close>. With the default
  sources and a global retrieval that hands back a record tagged farmer-specific, the
  record is in \<open>global_items\<close>, once for each of the two sources the retrieval is called
  for; neither of them may access farmer data, and the validator rejects the record for
  both.
\<close>

theorem C1_unvalidated_item_returned:
  "map snd (sources leaking_manager) = [farmer_db, rag_knowledge, external_search]
   \<and> global_query leaking_manager example_query = Inr [leaked_item]
   \<and> map_sum id global_items
        (query_information example_runtime leaking_manager example_query)
       = Inr [leaked_item, leaked_item]
   \<and> relevance leaked_item = FARMER_SPECIFIC
   \<and> can_access_global_data farmer_db = False
   \<and> can_access_farmer_data rag_knowledge = False
   \<and> can_access_farmer_data external_search = False
   \<and> validate_privacy_compliance leaked_item rag_knowledge = False
   \<and> validate_privacy_compliance leaked_item external_search = False"
proof -
  have s: "sources leaking_manager = sources example_manager"
    by (simp add: leaking_manager_def)
  have q: "farmer_database_query leaking_manager example_query
             = mock_farmer_database_query example_runtime example_query"
    "country_rag_query leaking_manager example_query
             = Inr (mock_country_rag_query example_query)"
    "global_query leaking_manager example_query = Inr [leaked_item]"
    by (simp_all add: leaking_manager_def retrievals_new_manager)
  have t: "farmer_tier leaking_manager example_query
             = mock_farmer_database_query example_runtime example_query"
    "country_tier leaking_manager example_query
             = Inr (mock_country_rag_query example_query)"
    "global_tier leaking_manager example_query = Inr [leaked_item, leaked_item]"
    by (simp_all add: farmer_tier_def country_tier_def global_tier_def
          query_farmer_specific_closed query_country_specific_closed query_global_closed
          s q sources_new_manager guards_default_sources candidates_def
          example_queries example_context_truthy mock_farmer_example)
  have g: "map_sum id global_items
             (query_information example_runtime leaking_manager example_query)
           = Inr [leaked_item, leaked_item]"
    by (simp add: query_information_tiers t add_metadata_def slice_to_def example_queries
          example_context_truthy mock_farmer_example json_example_runtime)
  have v: "relevance leaked_item = FARMER_SPECIFIC"
    "validate_privacy_compliance leaked_item rag_knowledge = False"
    "validate_privacy_compliance leaked_item external_search = False"
    by (simp_all add: leaked_item_def validate_privacy_compliance_def
          guards_default_sources)
  show ?thesis
    using g v q(3) by (simp add: s sources_new_manager guards_default_sources)
qed

section \<open>Exceptions\<close>











section \<open>Bulk indexing\<close>

lemma bulk_index_loop_stats:
  "fst (bulk_index_loop c docs [(''total'', t), (''success'', s), (''failed'', f)] w) =
     [(''total'', t),
      (''success'', s + int (length (filter (\<lambda>b. b) (add_document_results c docs w)))),
      (''failed'', f + int (length (filter Not (add_document_results c docs w))))]"
proof (induction docs arbitrary: s f w)
  case Nil
  then show ?case by simp
next
  case (Cons doc rest)
  obtain ok w' where step: "add_document c doc w = (ok, w')"
    by (cases "add_document c doc w")
  show ?case
  proof (cases ok)
    case True
    then show ?thesis
      using step Cons.IH [of "s + 1" f w'] by simp
  next
    case False
    then show ?thesis
      using step Cons.IH [of s "f + 1" w'] by simp
  qed
qed

lemma length_add_document_results:
  "length (add_document_results c docs w) = length docs"
  by (induction docs arbitrary: w) (auto split: prod.splits)

lemma add_document_of_body:
  "fst (add_document c d w) = (\<not> isl (fst (add_document_body c d w)))"
  by (simp add: add_document_def split: prod.splits sum.splits)

lemma add_document_body_no_text:
  "map_of d ''text'' = None \<Longrightarrow> isl (fst (add_document_body c d w))"
  by (simp add: add_document_body_def)

lemma add_document_body_embedding_fails:
  "map_of d ''text'' = Some text \<Longrightarrow> isl (fst (get_embedding c text w)) \<Longrightarrow>
   isl (fst (add_document_body c d w))"
  by (auto simp: add_document_body_def split: prod.splits sum.splits)

text \<open>
  C10. For every list of documents, the statistics returned by
  \<open>bulk_index_fis_documents\<close> have \<open>total\<close> equal to the length of the list, \<open>success\<close>
  equal to the number of documents for which \<open>add_document\<close> returned \<open>True\<close> and \<open>failed\<close>
  equal to the number for which it returned \<open>False\<close>; the two add up to \<open>total\<close>.
  \<open>add_document\<close> always returns a truth value: \<open>True\<close> exactly when its body ran to the
  end, \<open>False\<close> when anything in it raised, for instance when the document has no text or
  the embedding cannot be computed.
\<close>

theorem C10_bulk_index_counts:
  "fst (bulk_index_fis_documents c documents w) =
     [(''total'', int (length documents)),
      (''success'', int (length (filter (\<lambda>b. b) (add_document_results c documents w)))),
      (''failed'', int (length (filter Not (add_document_results c documents w))))]
   \<and> int (length (filter (\<lambda>b. b) (add_document_results c documents w)))
       + int (length (filter Not (add_document_results c documents w)))
       = int (length documents)
   \<and> fst (add_document c d w) = (\<not> isl (fst (add_document_body c d w)))
   \<and> (map_of d ''text'' = None \<longrightarrow> fst (add_document c d w) = False)
   \<and> (map_of d ''text'' = Some text \<and> isl (fst (get_embedding c text w)) \<longrightarrow>
         fst (add_document c d w) = False)"
proof -
  have a: "fst (bulk_index_fis_documents c documents w) =
     [(''total'', int (length documents)),
      (''success'', int (length (filter (\<lambda>b. b) (add_document_results c documents w)))),
      (''failed'', int (length (filter Not (add_document_results c documents w))))]"
    using bulk_index_loop_stats [of c documents "int (length documents)" 0 0 w]
    by (simp add: bulk_index_fis_documents_def)
  have "length (filter (\<lambda>b. b) (add_document_results c documents w))
          + length (filter (\<lambda>b. \<not> b) (add_document_results c documents w))
        = length (add_document_results c documents w)"
    by (rule sum_length_filter_compl)
  then have b: "int (length (filter (\<lambda>b. b) (add_document_results c documents w)))
       + int (length (filter Not (add_document_results c documents w)))
       = int (length documents)"
    by (simp add: length_add_document_results flip: of_nat_add)
  have e: "fst (add_document c d w) = False" if "map_of d ''text'' = None"
    using add_document_body_no_text [OF that, of c w] by (simp add: add_document_of_body)
  have g: "fst (add_document c d w) = False"
    if "map_of d ''text'' = Some text \<and> isl (fst (get_embedding c text w))"
    using add_document_body_embedding_fails [OF conjunct1 [OF that] conjunct2 [OF that]]
    by (simp add: add_document_of_body)
  show ?thesis
    by (intro conjI impI) (rule a, rule b, rule add_document_of_body, erule e, erule g)
qed

theorem C10_bulk_index_counts_witness:
  "add_document_results example_collaborators example_documents [] = [True, False, False]
   \<and> fst (bulk_index_fis_documents example_collaborators example_documents [])
       = [(''total'', 3), (''success'', 1), (''failed'', 2)]
   \<and> map_of (example_documents ! 1) ''text'' = None
   \<and> fst (add_document example_collaborators (example_documents ! 1) []) = False"
proof -
  have res: "add_document_results example_collaborators example_documents []
               = [True, False, False]"
    by (simp add: example_documents_def example_collaborators_def add_document_def
          add_document_body_def get_embedding_def document_metadata_def dict_get_def
          lower_def hash_value_def)
  have nt: "map_of (example_documents ! 1) ''text'' = None"
    by (simp add: example_documents_def)
  note T = C10_bulk_index_counts
             [of example_collaborators example_documents "[]" "example_documents ! 1"]
  have st: "fst (bulk_index_fis_documents example_collaborators example_documents [])
       = [(''total'', 3), (''success'', 1), (''failed'', 2)]"
    using T [THEN conjunct1] by (simp add: res) (simp add: example_documents_def)
  have f: "fst (add_document example_collaborators (example_documents ! 1) []) = False"
    by (rule T [THEN conjunct2, THEN conjunct2, THEN conjunct2, THEN conjunct1, THEN mp,
                OF nt])
  show ?thesis
    using res st nt f by simp
qed

end
